theory Spec2Isabelle
  imports Complex_Main "HOL-Library.Log_Nat" "HOL-Library.Word"
begin

section \<open>The fragment shader (src/main.c, lines 41-71)\<close>

text \<open>
  The shader is GLSL text compiled by the driver. Its built-in functions are embedded by
  the formulas of the GLSL specification, read over the real numbers:
  \<open>fract x = x - floor x\<close>, \<open>mix x y a = x * (1 - a) + y * a\<close>,
  \<open>smoothstep e0 e1 x = t * t * (3 - 2 * t)\<close> with \<open>t = clamp ((x - e0) / (e1 - e0)) 0 1\<close>.
  The rounding of the GPU's single-precision arithmetic is not part of this model.
\<close>

datatype vec2 = Vec2 (vx: real) (vy: real)

datatype vec3 = Vec3 (cr: real) (cg: real) (cb: real)

datatype vec4 = Vec4 (rgb: vec3) (alpha: real)

definition fract :: "real \<Rightarrow> real" where
  "fract v = v - of_int \<lfloor>v\<rfloor>"

definition clamp :: "real \<Rightarrow> real \<Rightarrow> real \<Rightarrow> real" where
  "clamp v lo hi = min (max v lo) hi"

definition smoothstep :: "real \<Rightarrow> real \<Rightarrow> real \<Rightarrow> real" where
  "smoothstep e0 e1 v = (let t = clamp ((v - e0) / (e1 - e0)) 0 1 in t * t * (3 - 2 * t))"

definition mix :: "real \<Rightarrow> real \<Rightarrow> real \<Rightarrow> real" where
  "mix a b t = a * (1 - t) + b * t"

definition dot :: "vec2 \<Rightarrow> vec2 \<Rightarrow> real" where
  "dot u v = vx u * vx v + vy u * vy v"

text \<open>Component-wise forms of the built-ins and operators the shader applies to vectors.\<close>

definition floor_vec2 :: "vec2 \<Rightarrow> vec2" where
  "floor_vec2 v = Vec2 (of_int \<lfloor>vx v\<rfloor>) (of_int \<lfloor>vy v\<rfloor>)"

definition fract_vec2 :: "vec2 \<Rightarrow> vec2" where
  "fract_vec2 v = Vec2 (fract (vx v)) (fract (vy v))"

definition smoothstep_vec2 :: "vec2 \<Rightarrow> vec2 \<Rightarrow> vec2 \<Rightarrow> vec2" where
  "smoothstep_vec2 e0 e1 v =
     Vec2 (smoothstep (vx e0) (vx e1) (vx v)) (smoothstep (vy e0) (vy e1) (vy v))"

definition vec2_add :: "vec2 \<Rightarrow> vec2 \<Rightarrow> vec2" where
  "vec2_add u v = Vec2 (vx u + vx v) (vy u + vy v)"

definition vec2_scale :: "vec2 \<Rightarrow> real \<Rightarrow> vec2" where
  \<comment> \<open>\<open>vec2 * float\<close>: both components are multiplied by the scalar.\<close>
  "vec2_scale v s = Vec2 (vx v * s) (vy v * s)"

definition vec2_sub_scalar :: "vec2 \<Rightarrow> real \<Rightarrow> vec2" where
  \<comment> \<open>\<open>vec2 - float\<close>: the scalar is subtracted from both components.\<close>
  "vec2_sub_scalar v s = Vec2 (vx v - s) (vy v - s)"

definition mix_vec3 :: "vec3 \<Rightarrow> vec3 \<Rightarrow> real \<Rightarrow> vec3" where
  "mix_vec3 a b t = Vec3 (mix (cr a) (cr b) t) (mix (cg a) (cg b) t) (mix (cb a) (cb b) t)"

text \<open>\<open>smooth_noise\<close>, lines 47-57.\<close>

definition smooth_noise :: "vec2 \<Rightarrow> real" where
  "smooth_noise st =
     (let i = floor_vec2 st;
          f = smoothstep_vec2 (Vec2 0 0) (Vec2 1 1) (fract_vec2 st);
          a = dot i (Vec2 1 57) + 1;
          b = dot (vec2_add i (Vec2 1 0)) (Vec2 1 57) + 1;
          c = dot (vec2_add i (Vec2 0 1)) (Vec2 1 57) + 1;
          d = dot (vec2_add i (Vec2 1 1)) (Vec2 1 57) + 1;
          result = mix (mix (fract (sin a * 43758.5453)) (fract (sin b * 43758.5453)) (vx f))
                       (mix (fract (sin c * 43758.5453)) (fract (sin d * 43758.5453)) (vx f))
                       (vy f)
      in result)"

text \<open>
  The shader's \<open>main\<close>, lines 59-71, in two parts: the coordinates and the noise sum
  (lines 60-65), then the colour (lines 66-70). \<open>tex_coord\<close> is the interpolated input,
  \<open>cloud_shift\<close> the uniform. The arguments of the second and third \<open>smooth_noise\<close>
  calls are named so that they can be inspected.
\<close>

definition st_base :: "vec2 \<Rightarrow> real \<Rightarrow> vec2" where
  \<comment> \<open>\<open>vec2 st = tex_coord * 5.0; st.x += cloud_shift * 0.15;\<close>\<close>
  "st_base tex_coord cloud_shift =
     (let st = vec2_scale tex_coord 5.0 in Vec2 (vx st + cloud_shift * 0.15) (vy st))"

definition st_octave1 :: "vec2 \<Rightarrow> real \<Rightarrow> vec2" where
  \<comment> \<open>\<open>st * 2.0 - cloud_shift * 0.05\<close>\<close>
  "st_octave1 st cloud_shift = vec2_sub_scalar (vec2_scale st 2.0) (cloud_shift * 0.05)"

definition st_octave2 :: "vec2 \<Rightarrow> real \<Rightarrow> vec2" where
  \<comment> \<open>\<open>st * 4.0 - cloud_shift * 0.1\<close>\<close>
  "st_octave2 st cloud_shift = vec2_sub_scalar (vec2_scale st 4.0) (cloud_shift * 0.1)"

definition fragment_noise :: "vec2 \<Rightarrow> real \<Rightarrow> real" where
  "fragment_noise tex_coord cloud_shift =
     (let st = st_base tex_coord cloud_shift;
          n = smooth_noise st;
          n1 = smooth_noise (st_octave1 st cloud_shift) * 0.5;
          n2 = smooth_noise (st_octave2 st cloud_shift) * 0.25
      in n + (n1 + n2))"

definition sky_color :: vec3 where
  "sky_color = Vec3 0.602 0.808 0.980"

definition cloud_color :: vec3 where
  \<comment> \<open>\<open>vec3(0.97)\<close>: the scalar fills all three components.\<close>
  "cloud_color = Vec3 0.97 0.97 0.97"

definition fragment_main :: "vec2 \<Rightarrow> real \<Rightarrow> vec4" where
  "fragment_main tex_coord cloud_shift =
     (let n = fragment_noise tex_coord cloud_shift;
          cloud = smoothstep 0.3 1.0 n;
          final_color = mix_vec3 cloud_color sky_color cloud
      in Vec4 final_color 1.0)"

text \<open>
  The same \<open>main\<close>, lines 59-71, statement by statement on the variables of the shader:
  the input \<open>tex_coord\<close>, the uniform \<open>cloud_shift\<close>, the output \<open>frag_color\<close> (lines
  43-45) and the locals of \<open>main\<close>. Nothing is assumed about what the output and the locals
  hold when an invocation starts. The extension of the record stands for any other state
  an invocation could find: earlier outputs, other uniforms, built-in variables.
  \<open>smooth_noise\<close> has a value parameter and locals with initialisers only, and names no
  global variable; it stays a function of its argument. A field carries the name of its
  variable with the suffix \<open>_v\<close>.
\<close>

record shader_state =
  tex_coord_v :: vec2
  cloud_shift_v :: real
  frag_color_v :: vec4
  st_v :: vec2
  n_v :: real
  n1_v :: real
  n2_v :: real
  cloud_v :: real
  sky_color_v :: vec3
  cloud_color_v :: vec3
  final_color_v :: vec3

definition shader_main :: "'a shader_state_scheme \<Rightarrow> 'a shader_state_scheme" where
  "shader_main s0 =
     (let s1 = s0\<lparr>st_v := vec2_scale (tex_coord_v s0) 5.0\<rparr>;
          s2 = s1\<lparr>st_v := Vec2 (vx (st_v s1) + cloud_shift_v s1 * 0.15) (vy (st_v s1))\<rparr>;
          s3 = s2\<lparr>n_v := smooth_noise (st_v s2)\<rparr>;
          s4 = s3\<lparr>n1_v := smooth_noise (vec2_sub_scalar (vec2_scale (st_v s3) 2.0)
                                   (cloud_shift_v s3 * 0.05)) * 0.5\<rparr>;
          s5 = s4\<lparr>n2_v := smooth_noise (vec2_sub_scalar (vec2_scale (st_v s4) 4.0)
                                   (cloud_shift_v s4 * 0.1)) * 0.25\<rparr>;
          s6 = s5\<lparr>n_v := n_v s5 + (n1_v s5 + n2_v s5)\<rparr>;
          s7 = s6\<lparr>cloud_v := smoothstep 0.3 1.0 (n_v s6)\<rparr>;
          s8 = s7\<lparr>sky_color_v := Vec3 0.602 0.808 0.980\<rparr>;
          s9 = s8\<lparr>cloud_color_v := Vec3 0.97 0.97 0.97\<rparr>;
          s10 = s9\<lparr>final_color_v := mix_vec3 (cloud_color_v s9) (sky_color_v s9) (cloud_v s9)\<rparr>
      in s10\<lparr>frag_color_v := Vec4 (final_color_v s10) 1.0\<rparr>)"

text \<open>
  Two starting states that agree on the texture coordinate and on the uniform and differ
  in everything else.
\<close>

definition state_a :: shader_state where
  "state_a =
     \<lparr>tex_coord_v = Vec2 (1/2) (1/4), cloud_shift_v = 2, frag_color_v = Vec4 (Vec3 0 0 0) 0,
      st_v = Vec2 0 0, n_v = 0, n1_v = 0, n2_v = 0, cloud_v = 0,
      sky_color_v = Vec3 0 0 0, cloud_color_v = Vec3 0 0 0, final_color_v = Vec3 0 0 0\<rparr>"

definition state_b :: shader_state where
  "state_b =
     \<lparr>tex_coord_v = Vec2 (1/2) (1/4), cloud_shift_v = 2, frag_color_v = Vec4 (Vec3 1 1 1) 1,
      st_v = Vec2 7 (- 3), n_v = 5, n1_v = 6, n2_v = 7, cloud_v = 8,
      sky_color_v = Vec3 1 0 1, cloud_color_v = Vec3 0 1 0, final_color_v = Vec3 9 9 9\<rparr>"

text \<open>
  The noise function as the specification words it (section 4.3, steps 1 to 3): the hash of
  a lattice corner, and the bilinear interpolation written as the weighted sum of the four
  corner values.
\<close>

definition corner_hash :: "vec2 \<Rightarrow> real" where
  "corner_hash corner = fract (sin (dot corner (Vec2 1 57) + 1) * 43758.5453)"

definition bilinear :: "real \<Rightarrow> real \<Rightarrow> real \<Rightarrow> real \<Rightarrow> real \<Rightarrow> real \<Rightarrow> real" where
  "bilinear v00 v10 v01 v11 fx fy =
     (1 - fx) * (1 - fy) * v00 + fx * (1 - fy) * v10 + (1 - fx) * fy * v01 + fx * fy * v11"

definition noise_reference :: "vec2 \<Rightarrow> real" where
  "noise_reference st =
     (let i = Vec2 (of_int \<lfloor>vx st\<rfloor>) (of_int \<lfloor>vy st\<rfloor>);
          fx = smoothstep 0 1 (fract (vx st));
          fy = smoothstep 0 1 (fract (vy st))
      in bilinear (corner_hash i)
                  (corner_hash (Vec2 (vx i + 1) (vy i)))
                  (corner_hash (Vec2 (vx i) (vy i + 1)))
                  (corner_hash (Vec2 (vx i + 1) (vy i + 1)))
                  fx fy)"

definition unit_channels :: "vec3 \<Rightarrow> bool" where
  "unit_channels c = (0 \<le> cr c \<and> cr c \<le> 1 \<and> 0 \<le> cg c \<and> cg c \<le> 1 \<and> 0 \<le> cb c \<and> cb c \<le> 1)"

section \<open>Single-precision values of the host program\<close>

text \<open>
  The host program keeps \<open>cloud_shift\<close> and the vertex data in C \<open>float\<close>s. They
  are modelled as IEEE 754 binary32 values with the default rounding (to nearest, ties to
  even), which is what the build of the Makefile (gcc on a target with SSE arithmetic) gives.
  \<open>Finite m e\<close> stands for the number \<open>m * 2 ^ e\<close>; a binary32 value has
  \<open>\<bar>m\<bar> < 2 ^ 24\<close>, \<open>- 149 \<le> e\<close> and magnitude below \<open>2 ^ 128\<close>. The sign of zero is not
  represented.
\<close>

datatype float32 = Finite int int | PosInf | NegInf | NaN

fun f32_val :: "float32 \<Rightarrow> real" where
  "f32_val (Finite m e) = (if 0 \<le> e then of_int m * 2 ^ nat e else of_int m / 2 ^ nat (- e))"

fun f32_is_zero :: "float32 \<Rightarrow> bool" where
  "f32_is_zero (Finite m e) = (m = 0)"
| "f32_is_zero _ = False"

definition round_half_even :: "int \<Rightarrow> nat \<Rightarrow> int" where
  \<comment> \<open>\<open>m / 2 ^ k\<close> rounded to the nearest integer, a tie to the even one.\<close>
  "round_half_even m k =
     (let d = 2 ^ k; q = m div d; r = m mod d
      in if 2 * r < d then q else if d < 2 * r then q + 1 else if even q then q else q + 1)"

definition round_f32 :: "int \<Rightarrow> int \<Rightarrow> float32" where
  \<comment> \<open>The binary32 value nearest to \<open>m * 2 ^ e\<close>: at most 24 significant bits, no exponent
      below \<open>- 149\<close>, infinity from \<open>2 ^ 128\<close> on.\<close>
  "round_f32 m e =
     (let sh = max (bitlen \<bar>m\<bar> - 24) (- 149 - e);
          q = (if sh \<le> 0 then m else round_half_even m (nat sh));
          e' = (if sh \<le> 0 then e else e + sh)
      in if 128 < bitlen \<bar>q\<bar> + e' then (if 0 < q then PosInf else NegInf) else Finite q e')"

fun fadd :: "float32 \<Rightarrow> float32 \<Rightarrow> float32" where
  "fadd (Finite m1 e1) (Finite m2 e2) =
     (let e = min e1 e2 in round_f32 (m1 * 2 ^ nat (e1 - e) + m2 * 2 ^ nat (e2 - e)) e)"
| "fadd NaN _ = NaN"
| "fadd _ NaN = NaN"
| "fadd PosInf NegInf = NaN"
| "fadd NegInf PosInf = NaN"
| "fadd PosInf _ = PosInf"
| "fadd _ PosInf = PosInf"
| "fadd NegInf _ = NegInf"
| "fadd _ NegInf = NegInf"

definition f32_zero :: float32 where
  \<comment> \<open>\<open>0.0f\<close>\<close>
  "f32_zero = Finite 0 0"

definition f32_one :: float32 where
  \<comment> \<open>\<open>1.0f\<close>\<close>
  "f32_one = Finite 1 0"

definition f32_minus_one :: float32 where
  \<comment> \<open>\<open>-1.0f\<close>\<close>
  "f32_minus_one = Finite (- 1) 0"

definition cloud_shift_step :: float32 where
  \<comment> \<open>\<open>0.02f\<close>: the binary32 value nearest to 0.02, \<open>10737418 / 2 ^ 29\<close>.\<close>
  "cloud_shift_step = Finite 10737418 (- 29)"

section \<open>The host program (src/main.c, lines 27-38 and 89-221)\<close>

definition vertex_shader_source :: string where
  "vertex_shader_source =
     ''#version 330 core\<newline>'' @
     ''\<newline>'' @
     ''layout(location = 0) in vec2 in_position;\<newline>'' @
     ''layout(location = 1) in vec2 in_tex_coord;\<newline>'' @
     ''out vec2 tex_coord;\<newline>'' @
     ''\<newline>'' @
     ''void main()\<newline>'' @
     ''{\<newline>'' @
     ''    gl_Position = vec4(in_position, 0.0, 1.0);\<newline>'' @
     ''    tex_coord = in_tex_coord;\<newline>'' @
     ''}\<newline>''"

definition fragment_shader_source :: string where
  "fragment_shader_source =
     ''#version 330 core\<newline>'' @
     ''in vec2 tex_coord;\<newline>'' @
     ''out vec4 frag_color;\<newline>'' @
     ''uniform float cloud_shift;\<newline>'' @
     ''\<newline>'' @
     ''float smooth_noise(vec2 st) {\<newline>'' @
     ''    vec2 i = floor(st);\<newline>'' @
     ''    vec2 f = smoothstep(vec2(0.0), vec2(1.0), fract(st));\<newline>'' @
     ''    float a = dot(i, vec2(1.0, 57.0)) + 1.0;\<newline>'' @
     ''    float b = dot(i + vec2(1.0, 0.0), vec2(1.0, 57.0)) + 1.0;\<newline>'' @
     ''    float c = dot(i + vec2(0.0, 1.0), vec2(1.0, 57.0)) + 1.0;\<newline>'' @
     ''    float d = dot(i + vec2(1.0, 1.0), vec2(1.0, 57.0)) + 1.0;\<newline>'' @
     ''    float result = mix(mix(fract(sin(a) * 43758.5453), fract(sin(b) * 43758.5453), f.x),\<newline>'' @
     ''                       mix(fract(sin(c) * 43758.5453), fract(sin(d) * 43758.5453), f.x), f.y);\<newline>'' @
     ''    return result;\<newline>'' @
     ''}\<newline>'' @
     ''\<newline>'' @
     ''void main() {\<newline>'' @
     ''    vec2 st = tex_coord * 5.0;\<newline>'' @
     ''    st.x += cloud_shift * 0.15;\<newline>'' @
     ''    float n = smooth_noise(st);\<newline>'' @
     ''    float n1 = smooth_noise(st * 2.0 - cloud_shift * 0.05) * 0.5;\<newline>'' @
     ''    float n2 = smooth_noise(st * 4.0 - cloud_shift * 0.1) * 0.25;\<newline>'' @
     ''    n += n1 + n2;\<newline>'' @
     ''    float cloud = smoothstep(0.3, 1.0, n);\<newline>'' @
     ''    vec3 sky_color = vec3(0.602, 0.808, 0.980);\<newline>'' @
     ''    vec3 cloud_color = vec3(0.97);\<newline>'' @
     ''    vec3 final_color = mix(cloud_color, sky_color, cloud);\<newline>'' @
     ''    frag_color = vec4(final_color, 1.0);\<newline>'' @
     ''}\<newline>''"

definition vertices :: "float32 list" where
  \<comment> \<open>Lines 89-98: per vertex two position floats, then two texture coordinate floats.\<close>
  "vertices =
     [f32_minus_one, f32_one,        f32_zero, f32_one,
      f32_minus_one, f32_minus_one,  f32_zero, f32_zero,
      f32_one,       f32_minus_one,  f32_one,  f32_zero,

      f32_minus_one, f32_one,        f32_zero, f32_one,
      f32_one,       f32_minus_one,  f32_one,  f32_zero,
      f32_one,       f32_one,        f32_one,  f32_one]"

text \<open>
  The symbolic constants of the OpenGL headers that the program passes, and the calls it
  makes to GLFW, GLEW, OpenGL and the C library, in the order it makes them. Handles
  (\<open>GLuint\<close>) and statuses (\<open>GLint\<close>) are 32-bit words, the window pointer is an
  address with 0 for \<open>NULL\<close>, a C \<open>int\<close> result is an integer tested against 0.
\<close>

datatype shader_kind = GL_VERTEX_SHADER | GL_FRAGMENT_SHADER

datatype status_query = GL_COMPILE_STATUS | GL_LINK_STATUS

datatype call =
    GlfwInit
  | GlfwCreateWindow nat nat string
  | GlfwTerminate
  | GlfwMakeContextCurrent nat
  | GlewInit
  | Stderr string
  | CreateShader shader_kind
  | ShaderSource "32 word" nat string
  | CompileShader "32 word"
  | GetShaderiv "32 word" status_query
  | GetShaderInfoLog "32 word" nat
  | CreateProgram
  | AttachShader "32 word" "32 word"
  | LinkProgram "32 word"
  | GetProgramiv "32 word" status_query
  | GetProgramInfoLog "32 word" nat
  | GetUniformLocation "32 word" string
  | DeleteShader "32 word"
  | GenVertexArrays nat
  | GenBuffers nat
  | BindVertexArray "32 word"
  | BindArrayBuffer "32 word"
  | ArrayBufferDataStaticDraw nat "float32 list"
  | VertexAttribPointerFloat nat nat nat nat
  | EnableVertexAttribArray nat
  | WindowShouldClose nat
  | ClearColorBuffer
  | UseProgram "32 word"
  | Uniform1f "32 word" float32
  | DrawArraysTriangles nat nat
  | SwapBuffers nat
  | PollEvents
  | DeleteVertexArrays nat "32 word"
  | DeleteBuffers nat "32 word"
  | DeleteProgram "32 word"

text \<open>
  What the libraries answer. \<open>shader_reply\<close> is the answer to one \<open>compile_shader\<close>
  call: the handle from \<open>glCreateShader\<close>, the value \<open>success\<close> holds after
  \<open>glGetShaderiv\<close>, and the text of the driver's diagnostic log.
\<close>

record shader_reply =
  shader_handle :: "32 word"
  compile_status :: "32 word"
  shader_log :: string

record driver =
  glfwInit_result :: int
  window :: nat
  glewInit_result :: "32 word"
  vertex_reply :: shader_reply
  fragment_reply :: shader_reply
  program_handle :: "32 word"
  link_status :: "32 word"
  program_log :: string
  uniform_location :: "32 word"
  vao_handle :: "32 word"
  vbo_handle :: "32 word"
  close_polls :: "int list"

definition GLEW_OK :: "32 word" where
  "GLEW_OK = 0"

definition info_log_text :: "nat \<Rightarrow> string \<Rightarrow> string" where
  \<comment> \<open>What a buffer of \<open>n\<close> chars holds of a log: at most \<open>n - 1\<close> characters before the
      terminating NUL.\<close>
  "info_log_text n msg = take (n - 1) msg"

text \<open>\<open>compile_shader\<close>, lines 101-116: the calls made and the handle returned.\<close>

definition compile_shader :: "shader_reply \<Rightarrow> string \<Rightarrow> shader_kind \<Rightarrow> call list \<times> 32 word" where
  "compile_shader reply source shader_type =
     (let shader = shader_handle reply;
          calls = [CreateShader shader_type, ShaderSource shader 1 source, CompileShader shader,
                   GetShaderiv shader GL_COMPILE_STATUS];
          success = compile_status reply
      in if success = 0
         then (calls @ [GetShaderInfoLog shader 512,
                        Stderr (''Error compiling shader: '' @ info_log_text 512 (shader_log reply)
                                @ ''\<newline>'')],
               0)
         else (calls, shader))"

text \<open>
  The render loop, lines 192-213. \<open>polls\<close> holds the successive results of
  \<open>glfwWindowShouldClose\<close>. The result is the calls made, the final \<open>cloud_shift\<close> and
  whether the loop was left; it is not left when no poll of the sequence asks for it.
\<close>

definition frame_calls :: "nat \<Rightarrow> 32 word \<Rightarrow> 32 word \<Rightarrow> 32 word \<Rightarrow> float32 \<Rightarrow> call list" where
  \<comment> \<open>The loop test that lets the frame run and the calls of its body, lines 192-212, with
      the value of \<open>cloud_shift\<close> after line 202.\<close>
  "frame_calls win shader_program cloud_shift_loc VAO cloud_shift =
     [WindowShouldClose win, ClearColorBuffer, UseProgram shader_program,
      Uniform1f cloud_shift_loc cloud_shift,
      BindVertexArray VAO, DrawArraysTriangles 0 6, BindVertexArray 0,
      SwapBuffers win, PollEvents]"

fun render_loop ::
  "nat \<Rightarrow> 32 word \<Rightarrow> 32 word \<Rightarrow> 32 word \<Rightarrow> int list \<Rightarrow> float32 \<Rightarrow> call list \<times> float32 \<times> bool" where
  "render_loop win shader_program cloud_shift_loc VAO [] cloud_shift = ([], cloud_shift, False)"
| "render_loop win shader_program cloud_shift_loc VAO (p # polls) cloud_shift =
     (if p \<noteq> 0 then ([WindowShouldClose win], cloud_shift, True)
      else
        (let cloud_shift' = fadd cloud_shift cloud_shift_step;
             (calls, final_shift, left) =
               render_loop win shader_program cloud_shift_loc VAO polls cloud_shift'
         in (frame_calls win shader_program cloud_shift_loc VAO cloud_shift' @ calls,
             final_shift, left)))"

text \<open>
  \<open>main\<close>, lines 118-221: the calls made and the exit status, \<open>None\<close> while the loop
  has not been left.
\<close>

definition link_calls :: "driver \<Rightarrow> 32 word \<Rightarrow> 32 word \<Rightarrow> call list" where
  \<comment> \<open>Lines 144-155.\<close>
  "link_calls d vertex_shader fragment_shader =
     (let shader_program = program_handle d
      in [CreateProgram, AttachShader shader_program vertex_shader,
          AttachShader shader_program fragment_shader, LinkProgram shader_program,
          GetProgramiv shader_program GL_LINK_STATUS]
         @ (if link_status d = 0
            then [GetProgramInfoLog shader_program 512,
                  Stderr (''Error linking shader program: '' @ info_log_text 512 (program_log d)
                          @ ''\<newline>'')]
            else []))"

definition buffer_setup_calls :: "driver \<Rightarrow> call list" where
  \<comment> \<open>Lines 165-186; \<open>sizeof(vertices)\<close> is 4 bytes for each float.\<close>
  "buffer_setup_calls d =
     [GenVertexArrays 1, GenBuffers 1, BindVertexArray (vao_handle d),
      BindArrayBuffer (vbo_handle d), ArrayBufferDataStaticDraw (4 * length vertices) vertices,
      VertexAttribPointerFloat 0 2 (4 * 4) 0, EnableVertexAttribArray 0,
      VertexAttribPointerFloat 1 2 (4 * 4) (2 * 4), EnableVertexAttribArray 1,
      BindArrayBuffer 0, BindVertexArray 0]"

definition cleanup_calls :: "driver \<Rightarrow> call list" where
  \<comment> \<open>Lines 216-219.\<close>
  "cleanup_calls d =
     [DeleteVertexArrays 1 (vao_handle d), DeleteBuffers 1 (vbo_handle d),
      DeleteProgram (program_handle d), GlfwTerminate]"

definition main :: "driver \<Rightarrow> call list \<times> int option" where
  "main d =
     (if glfwInit_result d = 0 then ([GlfwInit], Some (- 1))
      else if window d = 0
      then ([GlfwInit, GlfwCreateWindow 1280 960 ''Clouds'', GlfwTerminate], Some (- 1))
      else if glewInit_result d \<noteq> GLEW_OK
      then ([GlfwInit, GlfwCreateWindow 1280 960 ''Clouds'', GlfwMakeContextCurrent (window d),
             GlewInit, Stderr (''Failed to initialize GLEW'' @ ''\<newline>'')], Some (- 1))
      else
        (let init = [GlfwInit, GlfwCreateWindow 1280 960 ''Clouds'',
                     GlfwMakeContextCurrent (window d), GlewInit];
             (vertex_calls, vertex_shader) =
               compile_shader (vertex_reply d) vertex_shader_source GL_VERTEX_SHADER;
             (fragment_calls, fragment_shader) =
               compile_shader (fragment_reply d) fragment_shader_source GL_FRAGMENT_SHADER;
             shader_program = program_handle d;
             link = link_calls d vertex_shader fragment_shader;
             cloud_shift_loc = uniform_location d;
             setup = [GetUniformLocation shader_program ''cloud_shift'',
                      DeleteShader vertex_shader, DeleteShader fragment_shader]
                     @ buffer_setup_calls d;
             cloud_shift = f32_zero;
             (loop_calls, final_shift, left) =
               render_loop (window d) shader_program cloud_shift_loc (vao_handle d)
                 (close_polls d) cloud_shift;
             before = init @ vertex_calls @ fragment_calls @ link @ setup @ loop_calls
         in if left then (before @ cleanup_calls d, Some 0) else (before, None)))"

section \<open>Observations on a run\<close>

definition uploads :: "call list \<Rightarrow> float32 list" where
  \<comment> \<open>The values passed to \<open>glUniform1f\<close>, in order.\<close>
  "uploads calls = concat (map (\<lambda>c. case c of Uniform1f loc v \<Rightarrow> [v] | _ \<Rightarrow> []) calls)"

definition is_release :: "call \<Rightarrow> bool" where
  \<comment> \<open>The calls that release the vertex array, the buffer, the program and GLFW.\<close>
  "is_release c =
     (case c of DeleteVertexArrays n h \<Rightarrow> True | DeleteBuffers n h \<Rightarrow> True
      | DeleteProgram h \<Rightarrow> True | GlfwTerminate \<Rightarrow> True | _ \<Rightarrow> False)"

definition is_buffer_write :: "call \<Rightarrow> bool" where
  "is_buffer_write c = (case c of ArrayBufferDataStaticDraw n fs \<Rightarrow> True | _ \<Rightarrow> False)"

definition frames_run :: "int list \<Rightarrow> nat" where
  \<comment> \<open>The number of frames a poll sequence lets run: its leading zero results.\<close>
  "frames_run polls = length (takeWhile (\<lambda>p. p = 0) polls)"

definition accumulated :: "nat \<Rightarrow> float32" where
  \<comment> \<open>\<open>0.0f\<close> after \<open>k\<close> executions of \<open>cloud_shift += 0.02f\<close>.\<close>
  "accumulated k = ((\<lambda>s. fadd s cloud_shift_step) ^^ k) f32_zero"

fun f32_positive :: "float32 \<Rightarrow> bool" where
  "f32_positive (Finite m e) = (0 < m)"
| "f32_positive PosInf = True"
| "f32_positive _ = False"

text \<open>
  The vertices that \<open>glDrawArrays(GL_TRIANGLES, first, count)\<close> reads from the buffer under
  the layout of lines 177-182: a stride of 4 floats, the position in floats 0 and 1, the
  texture coordinate in floats 2 and 3. It is used on the 24 floats of \<open>vertices\<close> with
  first 0 and count 6 only, where every index read is in range.
\<close>

definition read_vertex :: "float32 list \<Rightarrow> nat \<Rightarrow> vec2 \<times> vec2" where
  "read_vertex buf k =
     (Vec2 (f32_val (buf ! (4 * k))) (f32_val (buf ! (4 * k + 1))),
      Vec2 (f32_val (buf ! (4 * k + 2))) (f32_val (buf ! (4 * k + 3))))"

definition drawn_vertices :: "float32 list \<Rightarrow> nat \<Rightarrow> nat \<Rightarrow> (vec2 \<times> vec2) list" where
  "drawn_vertices buf first count = map (read_vertex buf) [first ..< first + count]"

definition edge_fn :: "vec2 \<Rightarrow> vec2 \<Rightarrow> vec2 \<Rightarrow> real" where
  "edge_fn a b p = (vx b - vx a) * (vy p - vy a) - (vy b - vy a) * (vx p - vx a)"

definition in_triangle :: "vec2 \<Rightarrow> vec2 \<Rightarrow> vec2 \<Rightarrow> vec2 \<Rightarrow> bool" where
  \<comment> \<open>\<open>p\<close> lies in the closed triangle \<open>a b c\<close>: on the same side of its three edges.\<close>
  "in_triangle a b c p =
     ((0 \<le> edge_fn a b p \<and> 0 \<le> edge_fn b c p \<and> 0 \<le> edge_fn c a p)
      \<or> (edge_fn a b p \<le> 0 \<and> edge_fn b c p \<le> 0 \<and> edge_fn c a p \<le> 0))"

definition in_clip_square :: "vec2 \<Rightarrow> bool" where
  "in_clip_square p = (- 1 \<le> vx p \<and> vx p \<le> 1 \<and> - 1 \<le> vy p \<and> vy p \<le> 1)"

definition tex_of_position :: "vec2 \<Rightarrow> vec2" where
  \<comment> \<open>The map from \<open>[-1,1] \<times> [-1,1]\<close> onto \<open>[0,1] \<times> [0,1]\<close>, each axis on its own.\<close>
  "tex_of_position p = Vec2 ((vx p + 1) / 2) ((vy p + 1) / 2)"

definition barycentric :: "real \<Rightarrow> real \<Rightarrow> vec2 \<Rightarrow> vec2 \<Rightarrow> vec2 \<Rightarrow> vec2" where
  \<comment> \<open>The value the rasteriser interpolates inside a triangle from the values \<open>a\<close>,
      \<open>b\<close>, \<open>c\<close> at its corners, with the weights \<open>w0\<close>, \<open>w1\<close> and \<open>1 - w0 - w1\<close>.\<close>
  "barycentric w0 w1 a b c =
     Vec2 (w0 * vx a + w1 * vx b + (1 - w0 - w1) * vx c)
          (w0 * vy a + w1 * vy b + (1 - w0 - w1) * vy c)"

definition in_unit_square :: "vec2 \<Rightarrow> bool" where
  "in_unit_square t = (0 \<le> vx t \<and> vx t \<le> 1 \<and> 0 \<le> vy t \<and> vy t \<le> 1)"

text \<open>
  The calls of \<open>main\<close> up to the loop, lines 120-186, when the three initialisations
  have succeeded.
\<close>

definition run_prefix :: "driver \<Rightarrow> call list" where
  "run_prefix d =
     [GlfwInit, GlfwCreateWindow 1280 960 ''Clouds'', GlfwMakeContextCurrent (window d), GlewInit]
     @ fst (compile_shader (vertex_reply d) vertex_shader_source GL_VERTEX_SHADER)
     @ fst (compile_shader (fragment_reply d) fragment_shader_source GL_FRAGMENT_SHADER)
     @ link_calls d (snd (compile_shader (vertex_reply d) vertex_shader_source GL_VERTEX_SHADER))
         (snd (compile_shader (fragment_reply d) fragment_shader_source GL_FRAGMENT_SHADER))
     @ [GetUniformLocation (program_handle d) ''cloud_shift'',
        DeleteShader (snd (compile_shader (vertex_reply d) vertex_shader_source GL_VERTEX_SHADER)),
        DeleteShader (snd (compile_shader (fragment_reply d) fragment_shader_source GL_FRAGMENT_SHADER))]
     @ buffer_setup_calls d"

text \<open>
  A run to test on: the initialisations succeed, the fragment shader fails to compile, the
  program fails to link, and the window is asked to close at the third poll.
\<close>

definition driver0 :: driver where
  "driver0 =
     \<lparr>glfwInit_result = 1, window = 4096, glewInit_result = 0,
      vertex_reply = \<lparr>shader_handle = 1, compile_status = 1, shader_log = ''''\<rparr>,
      fragment_reply = \<lparr>shader_handle = 2, compile_status = 0, shader_log = ''0:1: syntax''\<rparr>,
      program_handle = 3, link_status = 0, program_log = ''link'',
      uniform_location = 0, vao_handle = 1, vbo_handle = 2,
      close_polls = [0, 0, 1]\<rparr>"

section \<open>Properties of the fragment shader\<close>

lemma fract_range: "0 \<le> fract v \<and> fract v < 1"
  unfolding fract_def by linarith

lemma clamp_unit: "0 \<le> clamp v 0 1 \<and> clamp v 0 1 \<le> 1"
  unfolding clamp_def by simp

lemma smoothstep_unit: "0 \<le> smoothstep e0 e1 v \<and> smoothstep e0 e1 v \<le> 1"
proof -
  define t where "t = clamp ((v - e0) / (e1 - e0)) 0 1"
  have t: "0 \<le> t" "t \<le> 1" using clamp_unit[of "(v - e0) / (e1 - e0)"] by (simp_all add: t_def)
  have lo: "0 \<le> t * t * (3 - 2 * t)" using t by simp
  have "1 - t * t * (3 - 2 * t) = (1 - t) * (1 - t) * (1 + 2 * t)" by (simp add: algebra_simps)
  moreover have "0 \<le> (1 - t) * (1 - t) * (1 + 2 * t)" using t by simp
  ultimately have hi: "t * t * (3 - 2 * t) \<le> 1" by linarith
  show ?thesis using lo hi by (simp add: smoothstep_def t_def Let_def)
qed

lemma mix_between:
  assumes "0 \<le> t" "t \<le> 1" "lo \<le> a" "a \<le> hi" "lo \<le> b" "b \<le> hi"
  shows "lo \<le> mix a b t \<and> mix a b t \<le> hi"
proof -
  have "mix a b t - lo = (a - lo) * (1 - t) + (b - lo) * t" by (simp add: mix_def algebra_simps)
  moreover have "0 \<le> (a - lo) * (1 - t) + (b - lo) * t" using assms by simp
  moreover have "hi - mix a b t = (hi - a) * (1 - t) + (hi - b) * t"
    by (simp add: mix_def algebra_simps)
  moreover have "0 \<le> (hi - a) * (1 - t) + (hi - b) * t" using assms by simp
  ultimately show ?thesis by linarith
qed

text \<open>
  C1, as stated, fails: the claim has every octave's coordinate offset by the animation
  scalar along X only. At texture coordinate (0, 0) the Y coordinate that the second
  \<open>smooth_noise\<close> call receives is \<open>- 0.05\<close> for \<open>cloud_shift = 1\<close> and 0 for
  \<open>cloud_shift = 0\<close>: \<open>st * 2.0 - cloud_shift * 0.05\<close> subtracts the scalar from both
  components.
\<close>

theorem octave_offset_only_x_counterexample:
  "vy (st_octave1 (st_base (Vec2 0 0) 1) 1) \<noteq> vy (st_octave1 (st_base (Vec2 0 0) 0) 0)"
  by (simp add: st_octave1_def st_base_def vec2_scale_def vec2_sub_scalar_def)

text \<open>
  C1, amended: the noise value is the sum of three octaves, at scale 5 with weight 1, at
  scale 10 with weight 0.5 and at scale 20 with weight 0.25. The X coordinates are offset
  by the animation scalar at the rates 0.15, 0.25 and 0.5. The Y coordinate of the first
  octave is not offset; those of the second and third are offset at the rates
  \<open>- 0.05\<close> and \<open>- 0.1\<close>.
\<close>

theorem fragment_noise_octaves:
  "fragment_noise tex cs =
     smooth_noise (Vec2 (5 * vx tex + 0.15 * cs) (5 * vy tex))
     + 0.5 * smooth_noise (Vec2 (10 * vx tex + 0.25 * cs) (10 * vy tex - 0.05 * cs))
     + 0.25 * smooth_noise (Vec2 (20 * vx tex + 0.5 * cs) (20 * vy tex - 0.1 * cs))"
  by (simp add: fragment_noise_def st_octave1_def st_octave2_def st_base_def vec2_scale_def
      vec2_sub_scalar_def Let_def algebra_simps)

lemma mix_mix_bilinear:
  "mix (mix v00 v10 fx) (mix v01 v11 fx) fy = bilinear v00 v10 v01 v11 fx fy"
  by (simp add: mix_def bilinear_def algebra_simps)

text \<open>
  C2: for every input \<open>st\<close> the shader's \<open>smooth_noise\<close> equals the reference
  definition (integer cell, smoothed fraction, hash of the four lattice corners, bilinear
  interpolation), and the hash of any corner lies in \<open>[0, 1)\<close>.
\<close>

theorem smooth_noise_reference:
  "smooth_noise st = noise_reference st \<and> 0 \<le> corner_hash c \<and> corner_hash c < 1"
proof -
  have "smooth_noise st = noise_reference st"
    by (simp add: smooth_noise_def noise_reference_def Let_def floor_vec2_def fract_vec2_def
        smoothstep_vec2_def vec2_add_def corner_hash_def mix_mix_bilinear)
  then show ?thesis using fract_range by (simp add: corner_hash_def)
qed

lemma unit_channels_mix:
  assumes "0 \<le> t" "t \<le> 1" "unit_channels a" "unit_channels b"
  shows "unit_channels (mix_vec3 a b t)"
  using assms mix_between[of t 0 _ 1] by (simp add: unit_channels_def mix_vec3_def)

text \<open>
  C3: for every texture coordinate and every non-negative animation scalar, the colour is
  the linear blend, by \<open>smoothstep 0.3 1.0\<close> of the summed noise, of the cloud colour
  (0.97, 0.97, 0.97) and the sky colour (0.602, 0.808, 0.980); both colours have their
  channels in \<open>[0, 1]\<close>, and so has the result.
\<close>

theorem fragment_main_unit_range:
  assumes "0 \<le> cs"
  shows "fragment_main tex cs =
           Vec4 (mix_vec3 (Vec3 0.97 0.97 0.97) (Vec3 0.602 0.808 0.980)
                   (smoothstep 0.3 1.0 (fragment_noise tex cs))) 1
         \<and> unit_channels (Vec3 0.97 0.97 0.97) \<and> unit_channels (Vec3 0.602 0.808 0.980)
         \<and> unit_channels (rgb (fragment_main tex cs))"
proof -
  have c: "unit_channels cloud_color" and s: "unit_channels sky_color"
    by (simp_all add: unit_channels_def cloud_color_def sky_color_def)
  have "unit_channels (mix_vec3 cloud_color sky_color (smoothstep 0.3 1.0 (fragment_noise tex cs)))"
    using smoothstep_unit c s by (intro unit_channels_mix) simp_all
  then show ?thesis using c s
    by (simp add: fragment_main_def Let_def cloud_color_def sky_color_def)
qed

text \<open>C3 at texture coordinate (0.5, 0.5) and animation scalar 1.\<close>

theorem fragment_main_unit_range_witness:
  "(0::real) \<le> 1 \<and> unit_channels (rgb (fragment_main (Vec2 (1/2) (1/2)) 1))"
proof -
  have h: "(0::real) \<le> 1" by simp
  show ?thesis using h fragment_main_unit_range[OF h, of "Vec2 (1/2) (1/2)"] by blast
qed

lemma shader_main_frag_color:
  "frag_color_v (shader_main s) = fragment_main (tex_coord_v s) (cloud_shift_v s)"
  by (simp add: shader_main_def fragment_main_def fragment_noise_def st_base_def st_octave1_def
      st_octave2_def cloud_color_def sky_color_def Let_def)

text \<open>
  C9: the output of an invocation is determined by the texture coordinate and the
  animation scalar alone. Two invocations that start in states agreeing on these two
  inputs, whatever else the states hold, write the same \<open>frag_color\<close>, which is the value
  of \<open>fragment_main\<close> at the inputs; and an invocation changes neither its inputs nor any
  state outside its own variables, so that it leaves nothing behind for a later one.
\<close>

theorem shader_main_reads_only_inputs:
  assumes "tex_coord_v s = tex_coord_v s'" and "cloud_shift_v s = cloud_shift_v s'"
  shows "frag_color_v (shader_main s) = frag_color_v (shader_main s')
         \<and> frag_color_v (shader_main s) = fragment_main (tex_coord_v s) (cloud_shift_v s)
         \<and> tex_coord_v (shader_main s) = tex_coord_v s
         \<and> cloud_shift_v (shader_main s) = cloud_shift_v s
         \<and> shader_state.more (shader_main s) = shader_state.more s"
proof -
  have "frag_color_v (shader_main s) = frag_color_v (shader_main s')"
    using assms by (simp add: shader_main_frag_color)
  moreover have "tex_coord_v (shader_main s) = tex_coord_v s"
    "cloud_shift_v (shader_main s) = cloud_shift_v s"
    "shader_state.more (shader_main s) = shader_state.more s"
    by (simp_all add: shader_main_def Let_def)
  ultimately show ?thesis by (simp add: shader_main_frag_color)
qed

text \<open>
  C9 on the two starting states above, which differ in the previous output and in every
  local.
\<close>

theorem shader_main_reads_only_inputs_witness:
  "tex_coord_v state_a = tex_coord_v state_b \<and> cloud_shift_v state_a = cloud_shift_v state_b
   \<and> state_a \<noteq> state_b
   \<and> frag_color_v (shader_main state_a) = frag_color_v (shader_main state_b)"
proof -
  have t: "tex_coord_v state_a = tex_coord_v state_b"
    and c: "cloud_shift_v state_a = cloud_shift_v state_b"
    and d: "state_a \<noteq> state_b"
    by (simp_all add: state_a_def state_b_def)
  show ?thesis using t c d shader_main_reads_only_inputs[OF t c] by blast
qed

section \<open>Properties of the host program\<close>

subsection \<open>Rounding and the accumulated scalar\<close>

lemma bitlen_mono: "a \<le> b \<Longrightarrow> bitlen a \<le> bitlen b"
  by (simp add: bitlen_def floorlog_mono)

lemma round_half_even_ge: "m div 2 ^ k \<le> round_half_even m k"
  by (simp add: round_half_even_def Let_def)

lemma round_f32_positive:
  assumes m: "0 < m" and normal: "- 149 - e \<le> bitlen m - 24"
  shows "f32_positive (round_f32 m e)"
proof -
  have bm: "\<bar>m\<bar> = m" using m by simp
  have sh: "max (bitlen m - 24) (- 149 - e) = bitlen m - 24" using normal by simp
  show ?thesis
  proof (cases "bitlen m - 24 \<le> 0")
  case True
  with m sh show ?thesis by (simp add: round_f32_def Let_def bm)
next
  case False
  define k where "k = nat (bitlen m - 24)"
  have "k \<le> nat (bitlen m - 1)" using False by (simp add: k_def)
  then have "(2::int) ^ k \<le> 2 ^ nat (bitlen m - 1)" by (simp add: power_increasing)
  also have "\<dots> \<le> m" using bitlen_bounds[OF m] by simp
  finally have "0 < m div 2 ^ k" by (simp add: pos_imp_zdiv_pos_iff)
  then have "0 < round_half_even m k" using round_half_even_ge[of m k] by linarith
  with False m sh show ?thesis by (simp add: round_f32_def Let_def k_def bm)
  qed
qed

lemma fadd_step_positive:
  assumes "0 \<le> m"
  shows "f32_positive (fadd (Finite m e) cloud_shift_step)"
proof -
  define e0 where "e0 = min e (- 29)"
  define k where "k = nat (- 29 - e0)"
  define S where "S = m * 2 ^ nat (e - e0) + 10737418 * 2 ^ k"
  have k: "int k = - 29 - e0" by (simp add: k_def e0_def)
  have low: "10737418 * 2 ^ k \<le> S" using assms by (simp add: S_def)
  have b: "bitlen (10737418::int) = 24" by code_simp
  have "bitlen (10737418 * 2 ^ k) = 24 + int k" using bitlen_pow2[of 10737418 k] b by simp
  then have "24 + int k \<le> bitlen S" using bitlen_mono[OF low] by simp
  then have normal: "- 149 - e0 \<le> bitlen S - 24" using k by simp
  have "0 < S" using low by (smt (verit) zero_less_power mult_pos_pos)
  then have "f32_positive (round_f32 S e0)" using normal by (rule round_f32_positive)
  then show ?thesis by (simp add: cloud_shift_step_def S_def e0_def k_def Let_def)
qed

lemma accumulated_Suc: "accumulated (Suc k) = fadd (accumulated k) cloud_shift_step"
  by (simp add: accumulated_def)

lemma accumulated_positive: "f32_positive (accumulated (Suc k))"
proof (induction k)
  case 0
  show ?case using fadd_step_positive[of 0 0] by (simp add: accumulated_def f32_zero_def)
next
  case (Suc k)
  show ?case
  proof (cases "accumulated (Suc k)")
    case (Finite m e)
    with Suc have "0 \<le> m" by simp
    then show ?thesis using Finite fadd_step_positive[of m e] by (simp add: accumulated_Suc[of "Suc k"])
  next
    case PosInf
    then show ?thesis by (simp add: accumulated_Suc[of "Suc k"] cloud_shift_step_def)
  qed (use Suc in simp_all)
qed

lemma positive_not_zero: "f32_positive v \<Longrightarrow> \<not> f32_is_zero v"
  by (cases v) simp_all

subsection \<open>The render loop\<close>

lemma uploads_append: "uploads (a @ b) = uploads a @ uploads b"
  by (simp add: uploads_def)

lemma uploads_frame: "uploads (frame_calls w p l v cs) = [cs]"
  by (simp add: uploads_def frame_calls_def)

lemma funpow_step_shift:
  "map (\<lambda>k. (f ^^ Suc k) (f cs)) [0..<n] = map (\<lambda>k. (f ^^ Suc k) cs) [Suc 0..<Suc n]"
proof -
  have "map (\<lambda>k. (f ^^ Suc k) (f cs)) [0..<n] = map ((\<lambda>k. (f ^^ Suc k) cs) \<circ> Suc) [0..<n]"
    by (simp add: funpow_swap1)
  also have "\<dots> = map (\<lambda>k. (f ^^ Suc k) cs) (map Suc [0..<n])" by simp
  finally show ?thesis by (simp only: map_Suc_upt)
qed

lemma render_loop_shift:
  "fst (snd (render_loop w p l v polls cs))
     = ((\<lambda>s. fadd s cloud_shift_step) ^^ frames_run polls) cs"
proof (induction polls arbitrary: cs)
  case Nil
  show ?case by (simp add: frames_run_def)
next
  case (Cons x polls)
  show ?case
    using Cons[of "fadd cs cloud_shift_step"]
      funpow_swap1[of "\<lambda>s. fadd s cloud_shift_step" "frames_run polls" cs]
    by (simp add: frames_run_def Let_def case_prod_beta)
qed

lemma render_loop_uploads:
  "uploads (fst (render_loop w p l v polls cs))
     = map (\<lambda>k. ((\<lambda>s. fadd s cloud_shift_step) ^^ Suc k) cs) [0..<frames_run polls]"
proof (induction polls arbitrary: cs)
  case Nil
  show ?case by (simp add: frames_run_def uploads_def)
next
  case (Cons x polls)
  show ?case
  proof (cases "x = 0")
    case True
    have "uploads (fst (render_loop w p l v (x # polls) cs))
            = fadd cs cloud_shift_step
              # uploads (fst (render_loop w p l v polls (fadd cs cloud_shift_step)))"
      using True by (simp add: uploads_append uploads_frame Let_def case_prod_beta)
    also have "\<dots> = fadd cs cloud_shift_step
              # map (\<lambda>k. ((\<lambda>s. fadd s cloud_shift_step) ^^ Suc k) cs) [Suc 0..<Suc (frames_run polls)]"
      using Cons[of "fadd cs cloud_shift_step"] funpow_step_shift[of "\<lambda>s. fadd s cloud_shift_step" cs]
      by simp
    also have "\<dots> = map (\<lambda>k. ((\<lambda>s. fadd s cloud_shift_step) ^^ Suc k) cs) [0..<Suc (frames_run polls)]"
      by (simp add: upt_rec[of 0])
    finally show ?thesis using True by (simp add: frames_run_def)
  next
    case False
    then show ?thesis by (simp add: frames_run_def uploads_def)
  qed
qed

lemma render_loop_left:
  "snd (snd (render_loop w p l v polls cs)) = list_ex (\<lambda>x. x \<noteq> 0) polls"
  by (induction polls arbitrary: cs) (simp_all add: Let_def case_prod_beta)

lemma render_loop_ends:
  "list_ex (\<lambda>x. x \<noteq> 0) polls \<Longrightarrow>
     \<exists>pre. fst (render_loop w p l v polls cs) = pre @ [WindowShouldClose w]"
proof (induction polls arbitrary: cs)
  case Nil
  then show ?case by simp
next
  case (Cons x polls)
  show ?case
  proof (cases "x = 0")
    case True
    with Cons.prems have "list_ex (\<lambda>x. x \<noteq> 0) polls" by simp
    from Cons.IH[OF this, of "fadd cs cloud_shift_step"] obtain pre where
      "fst (render_loop w p l v polls (fadd cs cloud_shift_step)) = pre @ [WindowShouldClose w]" ..
    then have "fst (render_loop w p l v (x # polls) cs)
                 = (frame_calls w p l v (fadd cs cloud_shift_step) @ pre) @ [WindowShouldClose w]"
      using True by (simp add: Let_def case_prod_beta)
    then show ?thesis by blast
  next
    case False
    then show ?thesis by simp
  qed
qed

lemma render_loop_no_release: "filter is_release (fst (render_loop w p l v polls cs)) = []"
  by (induction polls arbitrary: cs)
     (simp_all add: is_release_def frame_calls_def Let_def case_prod_beta)

lemma render_loop_no_write: "filter is_buffer_write (fst (render_loop w p l v polls cs)) = []"
  by (induction polls arbitrary: cs)
     (simp_all add: is_buffer_write_def frame_calls_def Let_def case_prod_beta)

subsection \<open>The accumulated scalar on concrete frame counts\<close>

lemma accumulated_values:
  "map accumulated [0, 1, 2, 3, 4, 5, 6] =
     [Finite 0 0, Finite 10737418 (- 29), Finite 10737418 (- 28), Finite 16106127 (- 28),
      Finite 10737418 (- 27), Finite 13421772 (- 27), Finite 16106126 (- 27)]"
  by code_simp

lemma frames_run_replicate: "frames_run (replicate N 0) = N"
  by (simp add: frames_run_def)

lemma frames_run_closed: "c \<noteq> 0 \<Longrightarrow> frames_run (replicate N 0 @ c # rest) = N"
  by (induction N) (simp_all add: frames_run_def)

text \<open>
  C4, as stated, fails: after 6 frames the scalar is \<open>16106126 / 2 ^ 27\<close>, which is
  neither 6 times 0.02 nor 6 times the value of the constant \<open>0.02f\<close>; the sixth
  addition falls on a tie and is rounded down.
\<close>

theorem cloud_shift_six_frames_counterexample:
  "f32_val (fst (snd (render_loop 1 1 1 1 (replicate 6 0) f32_zero))) \<noteq> 6 * (2 / 100)
   \<and> f32_val (fst (snd (render_loop 1 1 1 1 (replicate 6 0) f32_zero)))
       \<noteq> 6 * f32_val cloud_shift_step"
proof -
  have "fst (snd (render_loop 1 1 1 1 (replicate 6 0) f32_zero)) = accumulated 6"
    by (simp only: render_loop_shift frames_run_replicate accumulated_def)
  moreover have "accumulated 6 = Finite 16106126 (- 27)" using accumulated_values by simp
  ultimately show ?thesis by (simp add: cloud_shift_step_def)
qed

text \<open>
  C4, amended: the scalar starts at \<open>0.0f\<close> (line 189, the value \<open>main\<close> passes to the
  loop), each frame adds the constant \<open>0.02f\<close> to it once in single precision, and nothing
  resets it: after \<open>N\<close> frames it is the result of \<open>N\<close> successive rounded additions.
  The constant is within \<open>2 ^ - 30\<close> of 0.02, and up to 4 frames the scalar is exactly the
  frame count times the constant.
\<close>

theorem cloud_shift_after_frames:
  "fst (snd (render_loop win prog loc vao (replicate N 0) f32_zero)) = accumulated N
   \<and> accumulated 0 = f32_zero
   \<and> accumulated (Suc N) = fadd (accumulated N) cloud_shift_step
   \<and> \<bar>f32_val cloud_shift_step - 2 / 100\<bar> < 1 / 2 ^ 30
   \<and> map (\<lambda>k. f32_val (accumulated k)) [0, 1, 2, 3, 4]
       = map (\<lambda>k. real k * f32_val cloud_shift_step) [0, 1, 2, 3, 4]"
proof -
  have a: "fst (snd (render_loop win prog loc vao (replicate N 0) f32_zero)) = accumulated N"
    by (simp only: render_loop_shift frames_run_replicate accumulated_def)
  have b: "accumulated 0 = f32_zero" by (simp add: accumulated_def)
  have c: "\<bar>f32_val cloud_shift_step - 2 / 100\<bar> < 1 / 2 ^ 30"
    by (simp add: cloud_shift_step_def)
  have d: "map (\<lambda>k. f32_val (accumulated k)) [0, 1, 2, 3, 4]
       = map (\<lambda>k. real k * f32_val cloud_shift_step) [0, 1, 2, 3, 4]"
    using accumulated_values by (simp add: cloud_shift_step_def)
  show ?thesis using a b c d accumulated_Suc by simp
qed

subsection \<open>The shape of a run\<close>

lemma compile_shader_calls:
  "fst (compile_shader r src k) =
     [CreateShader k, ShaderSource (shader_handle r) 1 src, CompileShader (shader_handle r),
      GetShaderiv (shader_handle r) GL_COMPILE_STATUS]
     @ (if compile_status r = 0
        then [GetShaderInfoLog (shader_handle r) 512,
              Stderr (''Error compiling shader: '' @ take 511 (shader_log r) @ ''\<newline>'')]
        else [])"
  by (simp add: compile_shader_def Let_def info_log_text_def)

lemma compile_shader_handle:
  "snd (compile_shader r src k) = (if compile_status r = 0 then 0 else shader_handle r)"
  by (simp add: compile_shader_def Let_def)

lemma main_running:
  assumes "glfwInit_result d \<noteq> 0" "window d \<noteq> 0" "glewInit_result d = GLEW_OK"
  shows "fst (main d) =
           run_prefix d
           @ fst (render_loop (window d) (program_handle d) (uniform_location d) (vao_handle d)
                    (close_polls d) f32_zero)
           @ (if list_ex (\<lambda>p. p \<noteq> 0) (close_polls d) then cleanup_calls d else [])"
    and "snd (main d) = (if list_ex (\<lambda>p. p \<noteq> 0) (close_polls d) then Some 0 else None)"
  using assms render_loop_left[of "window d" "program_handle d" "uniform_location d" "vao_handle d"
      "close_polls d" f32_zero]
  by (simp_all add: main_def run_prefix_def Let_def case_prod_beta)

lemma uploads_Nil: "uploads [] = []"
  by (simp add: uploads_def)

lemma uploads_Cons:
  "uploads (c # cs) = (case c of Uniform1f loc v \<Rightarrow> [v] | _ \<Rightarrow> []) @ uploads cs"
  by (simp add: uploads_def)

lemma compile_shader_quiet:
  "uploads (fst (compile_shader r src k)) = []"
  "filter is_release (fst (compile_shader r src k)) = []"
  "filter is_buffer_write (fst (compile_shader r src k)) = []"
  by (simp_all add: compile_shader_def Let_def uploads_Nil uploads_Cons uploads_append
      is_release_def is_buffer_write_def)

lemma link_calls_quiet:
  "uploads (link_calls d vs fs) = []"
  "filter is_release (link_calls d vs fs) = []"
  "filter is_buffer_write (link_calls d vs fs) = []"
  by (simp_all add: link_calls_def Let_def uploads_Nil uploads_Cons uploads_append
      is_release_def is_buffer_write_def)

lemma buffer_setup_quiet:
  "uploads (buffer_setup_calls d) = []"
  "filter is_release (buffer_setup_calls d) = []"
  "filter is_buffer_write (buffer_setup_calls d) = [ArrayBufferDataStaticDraw 96 vertices]"
  by (simp_all add: buffer_setup_calls_def uploads_Nil uploads_Cons is_release_def
      is_buffer_write_def vertices_def)

lemma run_prefix_uploads: "uploads (run_prefix d) = []"
  by (simp add: run_prefix_def uploads_Nil uploads_Cons uploads_append compile_shader_quiet
      link_calls_quiet buffer_setup_quiet)

lemma run_prefix_releases: "filter is_release (run_prefix d) = []"
  by (simp add: run_prefix_def compile_shader_quiet link_calls_quiet buffer_setup_quiet
      is_release_def)

lemma run_prefix_writes:
  "filter is_buffer_write (run_prefix d) = [ArrayBufferDataStaticDraw 96 vertices]"
  by (simp add: run_prefix_def compile_shader_quiet link_calls_quiet buffer_setup_quiet
      is_buffer_write_def)

lemma cleanup_calls_uploads: "uploads (cleanup_calls d) = []"
  by (simp add: cleanup_calls_def uploads_Nil uploads_Cons)

subsection \<open>Shutdown\<close>

lemma driver0_init:
  "glfwInit_result driver0 \<noteq> 0" "window driver0 \<noteq> 0" "glewInit_result driver0 = GLEW_OK"
  "list_ex (\<lambda>p. p \<noteq> 0) (close_polls driver0)"
  by (simp_all add: driver0_def GLEW_OK_def)

text \<open>
  C5, as stated, fails on the order: the claim has the buffer released before the vertex
  array. In the test run the release calls are the vertex array (handle 1), then the buffer
  (handle 2), then the program, then GLFW.
\<close>

theorem release_order_counterexample:
  "filter is_release (fst (main driver0))
     \<noteq> [DeleteBuffers 1 2, DeleteVertexArrays 1 1, DeleteProgram 3, GlfwTerminate]"
proof -
  have "filter is_release (fst (main driver0)) = cleanup_calls driver0"
    using main_running(1)[OF driver0_init(1-3)] driver0_init(4)
    by (simp add: run_prefix_releases render_loop_no_release cleanup_calls_def is_release_def)
  then show ?thesis by (simp add: cleanup_calls_def driver0_def)
qed

text \<open>
  C5, amended: when the initialisations have succeeded and a poll reports the close request,
  the run ends with that poll followed by the release of the vertex array, then the buffer,
  then the program, then GLFW; these are the only release calls of the run, and the exit
  status is 0, whatever the compile and link statuses were.
\<close>

theorem release_on_close:
  assumes "glfwInit_result d \<noteq> 0" "window d \<noteq> 0" "glewInit_result d = GLEW_OK"
    and "list_ex (\<lambda>p. p \<noteq> 0) (close_polls d)"
  shows "(\<exists>pre. fst (main d) =
            pre @ [WindowShouldClose (window d), DeleteVertexArrays 1 (vao_handle d),
                   DeleteBuffers 1 (vbo_handle d), DeleteProgram (program_handle d),
                   GlfwTerminate])
         \<and> filter is_release (fst (main d)) =
             [DeleteVertexArrays 1 (vao_handle d), DeleteBuffers 1 (vbo_handle d),
              DeleteProgram (program_handle d), GlfwTerminate]
         \<and> snd (main d) = Some 0"
proof -
  obtain pre where pre:
    "fst (render_loop (window d) (program_handle d) (uniform_location d) (vao_handle d)
            (close_polls d) f32_zero) = pre @ [WindowShouldClose (window d)]"
    using render_loop_ends[OF assms(4)] by blast
  have "fst (main d) = (run_prefix d @ pre) @ WindowShouldClose (window d) # cleanup_calls d"
    using main_running(1)[OF assms(1-3)] assms(4) pre by simp
  then have a: "\<exists>pre. fst (main d) =
            pre @ [WindowShouldClose (window d), DeleteVertexArrays 1 (vao_handle d),
                   DeleteBuffers 1 (vbo_handle d), DeleteProgram (program_handle d),
                   GlfwTerminate]"
    unfolding cleanup_calls_def by blast
  have b: "filter is_release (fst (main d)) = cleanup_calls d"
    using main_running(1)[OF assms(1-3)] assms(4)
    by (simp add: run_prefix_releases render_loop_no_release cleanup_calls_def is_release_def)
  show ?thesis using a b main_running(2)[OF assms(1-3)] assms(4) by (simp add: cleanup_calls_def)
qed

text \<open>C5, amended, on the test run, where a compilation and the linking fail.\<close>

theorem release_on_close_witness:
  "glfwInit_result driver0 \<noteq> 0 \<and> window driver0 \<noteq> 0 \<and> glewInit_result driver0 = GLEW_OK
   \<and> list_ex (\<lambda>p. p \<noteq> 0) (close_polls driver0)
   \<and> compile_status (fragment_reply driver0) = 0 \<and> link_status driver0 = 0
   \<and> filter is_release (fst (main driver0)) =
        [DeleteVertexArrays 1 1, DeleteBuffers 1 2, DeleteProgram 3, GlfwTerminate]
   \<and> snd (main driver0) = Some 0"
proof -
  have "vao_handle driver0 = 1" "vbo_handle driver0 = 2" "program_handle driver0 = 3"
    "compile_status (fragment_reply driver0) = 0" "link_status driver0 = 0"
    by (simp_all add: driver0_def)
  then show ?thesis using driver0_init release_on_close[OF driver0_init] by simp
qed

subsection \<open>Exit status\<close>

text \<open>
  C6, as stated, fails: the claim has exit status 0 when the initialisation of the windowing
  library fails. The test run with \<open>glfwInit\<close> returning 0 does not exit with 0 (line 121
  returns \<open>- 1\<close>).
\<close>

theorem init_failure_exit_counterexample:
  "snd (main (driver0\<lparr>glfwInit_result := 0\<rparr>)) \<noteq> Some 0"
  by (simp add: main_def)

text \<open>
  C6, amended: the exit status is \<open>- 1\<close> when \<open>glfwInit\<close> fails, when the window is not
  created and when \<open>glewInit\<close> fails; it is 0 when the loop is left on a close request;
  there is none while no poll asks to close.
\<close>

theorem main_exit_status:
  "snd (main d) =
     (if glfwInit_result d = 0 then Some (- 1)
      else if window d = 0 then Some (- 1)
      else if glewInit_result d = GLEW_OK
      then (if list_ex (\<lambda>p. p \<noteq> 0) (close_polls d) then Some 0 else None)
      else Some (- 1))"
proof (cases "glfwInit_result d \<noteq> 0 \<and> window d \<noteq> 0 \<and> glewInit_result d = GLEW_OK")
  case True
  then show ?thesis using main_running(2)[of d] by simp
next
  case False
  then show ?thesis by (auto simp add: main_def)
qed

subsection \<open>Shader compilation\<close>

text \<open>
  C7: for every source and stage kind, when the compile status is 0 \<open>compile_shader\<close>
  fetches the log (at most 511 characters of it), prints it to standard error after
  \<open>Error compiling shader: \<close> and returns 0; otherwise it returns the stage's handle and
  prints nothing. The failure is not fatal: the exit status of \<open>main\<close> does not depend on
  the answers to the two compilations, and after a failed vertex compilation the run goes on
  to attach the handle 0 to the program.
\<close>

theorem compile_shader_failure_not_fatal:
  "(compile_status r = 0 \<longrightarrow>
      compile_shader r src k =
        ([CreateShader k, ShaderSource (shader_handle r) 1 src, CompileShader (shader_handle r),
          GetShaderiv (shader_handle r) GL_COMPILE_STATUS,
          GetShaderInfoLog (shader_handle r) 512,
          Stderr (''Error compiling shader: '' @ take 511 (shader_log r) @ ''\<newline>'')], 0))
   \<and> (compile_status r \<noteq> 0 \<longrightarrow>
      compile_shader r src k =
        ([CreateShader k, ShaderSource (shader_handle r) 1 src, CompileShader (shader_handle r),
          GetShaderiv (shader_handle r) GL_COMPILE_STATUS], shader_handle r))
   \<and> snd (main (d\<lparr>vertex_reply := r, fragment_reply := r'\<rparr>)) = snd (main d)
   \<and> (glfwInit_result d \<noteq> 0 \<and> window d \<noteq> 0 \<and> glewInit_result d = GLEW_OK
        \<and> compile_status (vertex_reply d) = 0 \<longrightarrow>
      AttachShader (program_handle d) 0 \<in> set (fst (main d)))"
proof -
  have a: "snd (main (d\<lparr>vertex_reply := r, fragment_reply := r'\<rparr>)) = snd (main d)"
    by (simp add: main_def Let_def case_prod_beta)
  have b: "AttachShader (program_handle d) 0 \<in> set (fst (main d))"
    if "glfwInit_result d \<noteq> 0" "window d \<noteq> 0" "glewInit_result d = GLEW_OK"
      "compile_status (vertex_reply d) = 0"
    using main_running(1)[OF that(1-3)] that(4)
    by (simp add: run_prefix_def link_calls_def compile_shader_handle Let_def)
  show ?thesis using a b by (simp add: compile_shader_def Let_def info_log_text_def)
qed

text \<open>
  C7 on the test run: its fragment compilation fails, its vertex compilation succeeds, and
  with the failing answer given to the vertex compilation too, the handle 0 is attached.
\<close>

theorem compile_shader_failure_not_fatal_witness:
  "compile_status (fragment_reply driver0) = 0
   \<and> compile_shader (fragment_reply driver0) fragment_shader_source GL_FRAGMENT_SHADER =
        ([CreateShader GL_FRAGMENT_SHADER, ShaderSource 2 1 fragment_shader_source,
          CompileShader 2, GetShaderiv 2 GL_COMPILE_STATUS, GetShaderInfoLog 2 512,
          Stderr (''Error compiling shader: 0:1: syntax'' @ ''\<newline>'')], 0)
   \<and> compile_status (vertex_reply driver0) \<noteq> 0
   \<and> compile_shader (vertex_reply driver0) vertex_shader_source GL_VERTEX_SHADER =
        ([CreateShader GL_VERTEX_SHADER, ShaderSource 1 1 vertex_shader_source,
          CompileShader 1, GetShaderiv 1 GL_COMPILE_STATUS], 1)
   \<and> glfwInit_result driver0 \<noteq> 0 \<and> window driver0 \<noteq> 0 \<and> glewInit_result driver0 = GLEW_OK
   \<and> compile_status (vertex_reply (driver0\<lparr>vertex_reply := fragment_reply driver0\<rparr>)) = 0
   \<and> AttachShader 3 0 \<in> set (fst (main (driver0\<lparr>vertex_reply := fragment_reply driver0\<rparr>)))"
proof -
  have f: "compile_status (fragment_reply driver0) = 0"
    "shader_handle (fragment_reply driver0) = 2"
    "shader_log (fragment_reply driver0) = ''0:1: syntax''"
    and v: "compile_status (vertex_reply driver0) \<noteq> 0"
    "shader_handle (vertex_reply driver0) = 1"
    and p: "program_handle driver0 = 3"
    by (simp_all add: driver0_def)
  show ?thesis
    using f v p driver0_init
      compile_shader_failure_not_fatal[where r = "fragment_reply driver0"
        and src = fragment_shader_source and k = GL_FRAGMENT_SHADER and d = driver0]
      compile_shader_failure_not_fatal[where r = "vertex_reply driver0"
        and src = vertex_shader_source and k = GL_VERTEX_SHADER
        and d = "driver0\<lparr>vertex_reply := fragment_reply driver0\<rparr>"]
    by simp
qed

subsection \<open>The uploaded values\<close>

text \<open>
  C10: when the initialisations have succeeded, the values uploaded by a run are, frame by
  frame, the scalar after the increment of that frame: the value uploaded on frame \<open>k\<close>
  (counted from 1) is the result of \<open>k\<close> successive additions of \<open>0.02f\<close> to \<open>0.0f\<close>. No
  uploaded value is zero, and the first is \<open>0.02f\<close>.
\<close>

theorem upload_after_increment:
  assumes "glfwInit_result d \<noteq> 0" "window d \<noteq> 0" "glewInit_result d = GLEW_OK"
  shows "uploads (fst (main d)) = map (\<lambda>k. accumulated (Suc k)) [0..<frames_run (close_polls d)]
         \<and> list_all (\<lambda>v. \<not> f32_is_zero v) (uploads (fst (main d)))
         \<and> accumulated (Suc 0) = cloud_shift_step
         \<and> accumulated (Suc k) = fadd (accumulated k) cloud_shift_step
         \<and> accumulated 0 = f32_zero"
proof -
  have a: "uploads (fst (main d))
             = map (\<lambda>k. accumulated (Suc k)) [0..<frames_run (close_polls d)]"
    using main_running(1)[OF assms]
    by (simp add: uploads_append run_prefix_uploads cleanup_calls_uploads uploads_Nil
        render_loop_uploads accumulated_def)
  have b: "list_all (\<lambda>v. \<not> f32_is_zero v) (uploads (fst (main d)))"
    unfolding a by (simp add: list_all_iff positive_not_zero[OF accumulated_positive])
  have c: "accumulated (Suc 0) = cloud_shift_step" by code_simp
  have e: "accumulated 0 = f32_zero" by (simp add: accumulated_def)
  show ?thesis using a b c e accumulated_Suc by simp
qed

text \<open>C10 on the test run, which draws two frames.\<close>

theorem upload_after_increment_witness:
  "glfwInit_result driver0 \<noteq> 0 \<and> window driver0 \<noteq> 0 \<and> glewInit_result driver0 = GLEW_OK
   \<and> uploads (fst (main driver0)) = [Finite 10737418 (- 29), Finite 10737418 (- 28)]"
proof -
  have f: "frames_run (close_polls driver0) = 2" by (simp add: driver0_def frames_run_def)
  have l: "[0..<2] = [0, Suc 0]" by (simp add: upt_rec)
  have v: "accumulated (Suc 0) = Finite 10737418 (- 29)"
    "accumulated (Suc (Suc 0)) = Finite 10737418 (- 28)"
    using accumulated_values by (simp_all add: numeral_2_eq_2)
  show ?thesis
    using driver0_init(1-3) upload_after_increment[OF driver0_init(1-3)] f l v by simp
qed

subsection \<open>The quad\<close>

lemma tex_of_position_affine:
  "barycentric w0 w1 (tex_of_position a) (tex_of_position b) (tex_of_position c)
     = tex_of_position (barycentric w0 w1 a b c)"
  by (simp add: barycentric_def tex_of_position_def algebra_simps add_divide_distrib
      diff_divide_distrib)

lemma tex_of_position_onto:
  "in_unit_square (tex_of_position p) = in_clip_square p"
  "tex_of_position (Vec2 (2 * vx t - 1) (2 * vy t - 1)) = t"
  "(tex_of_position p = tex_of_position q) = (p = q)"
  by (cases p; cases q; cases t;
      simp add: in_unit_square_def in_clip_square_def tex_of_position_def; linarith?)+

lemma quad_vertices:
  "drawn_vertices vertices 0 6 =
     [(Vec2 (- 1) 1, Vec2 0 1), (Vec2 (- 1) (- 1), Vec2 0 0), (Vec2 1 (- 1), Vec2 1 0),
      (Vec2 (- 1) 1, Vec2 0 1), (Vec2 1 (- 1), Vec2 1 0), (Vec2 1 1, Vec2 1 1)]"
proof -
  have "[0..<6] = [0, 1, 2, 3, 4, 5::nat]" by code_simp
  then show ?thesis
    by (simp add: drawn_vertices_def read_vertex_def vertices_def f32_one_def f32_zero_def
        f32_minus_one_def)
qed

lemma triangles_cover_square:
  "in_clip_square p =
     (in_triangle (Vec2 (- 1) 1) (Vec2 (- 1) (- 1)) (Vec2 1 (- 1)) p
      \<or> in_triangle (Vec2 (- 1) 1) (Vec2 1 (- 1)) (Vec2 1 1) p)"
  unfolding in_clip_square_def in_triangle_def edge_fn_def by (cases p) (simp, linarith)

text \<open>
  C8: the array holds 6 vertices of 4 floats; the draw call of each frame reads them as two
  triangles, which together cover exactly the square \<open>[-1,1] \<times> [-1,1]\<close>; the texture
  coordinate of every vertex is the image of its position under a map that takes the square
  one-to-one onto \<open>[0,1] \<times> [0,1]\<close>, each axis on its own, and interpolation inside a triangle
  commutes with that map; a run writes buffer data once, the array itself, and never again.
\<close>

theorem quad_geometry:
  "length vertices = 4 * 6
   \<and> drawn_vertices vertices 0 6 =
       [(Vec2 (- 1) 1, Vec2 0 1), (Vec2 (- 1) (- 1), Vec2 0 0), (Vec2 1 (- 1), Vec2 1 0),
        (Vec2 (- 1) 1, Vec2 0 1), (Vec2 1 (- 1), Vec2 1 0), (Vec2 1 1, Vec2 1 1)]
   \<and> in_clip_square p =
       (in_triangle (fst (drawn_vertices vertices 0 6 ! 0)) (fst (drawn_vertices vertices 0 6 ! 1))
          (fst (drawn_vertices vertices 0 6 ! 2)) p
        \<or> in_triangle (fst (drawn_vertices vertices 0 6 ! 3)) (fst (drawn_vertices vertices 0 6 ! 4))
          (fst (drawn_vertices vertices 0 6 ! 5)) p)
   \<and> map snd (drawn_vertices vertices 0 6)
       = map (tex_of_position \<circ> fst) (drawn_vertices vertices 0 6)
   \<and> barycentric w0 w1 (tex_of_position a) (tex_of_position b) (tex_of_position c)
       = tex_of_position (barycentric w0 w1 a b c)
   \<and> in_unit_square (tex_of_position p) = in_clip_square p
   \<and> tex_of_position (Vec2 (2 * vx t - 1) (2 * vy t - 1)) = t
   \<and> (tex_of_position p = tex_of_position q) = (p = q)
   \<and> filter is_buffer_write (fst (main d)) =
       (if glfwInit_result d = 0 then []
        else if window d = 0 then []
        else if glewInit_result d = GLEW_OK then [ArrayBufferDataStaticDraw 96 vertices]
        else [])
   \<and> DrawArraysTriangles 0 6 \<in> set (frame_calls win prog loc vao cs)"
proof -
  have a: "length vertices = 4 * 6" by (simp add: vertices_def)
  have c: "in_clip_square p =
       (in_triangle (fst (drawn_vertices vertices 0 6 ! 0)) (fst (drawn_vertices vertices 0 6 ! 1))
          (fst (drawn_vertices vertices 0 6 ! 2)) p
        \<or> in_triangle (fst (drawn_vertices vertices 0 6 ! 3)) (fst (drawn_vertices vertices 0 6 ! 4))
          (fst (drawn_vertices vertices 0 6 ! 5)) p)"
    using triangles_cover_square[of p] by (simp add: quad_vertices)
  have t: "map snd (drawn_vertices vertices 0 6)
       = map (tex_of_position \<circ> fst) (drawn_vertices vertices 0 6)"
    by (simp add: quad_vertices tex_of_position_def)
  have w: "filter is_buffer_write (fst (main d)) =
       (if glfwInit_result d = 0 then []
        else if window d = 0 then []
        else if glewInit_result d = GLEW_OK then [ArrayBufferDataStaticDraw 96 vertices]
        else [])"
  proof (cases "glfwInit_result d \<noteq> 0 \<and> window d \<noteq> 0 \<and> glewInit_result d = GLEW_OK")
    case True
    then show ?thesis using main_running(1)[of d]
      by (simp add: run_prefix_writes render_loop_no_write cleanup_calls_def is_buffer_write_def)
  next
    case False
    then show ?thesis by (auto simp add: main_def is_buffer_write_def)
  qed
  have f: "DrawArraysTriangles 0 6 \<in> set (frame_calls win prog loc vao cs)"
    by (simp add: frame_calls_def)
  show ?thesis
    using a c t w f quad_vertices tex_of_position_affine tex_of_position_onto by simp
qed

end
